theory Spec2Isabelle
  imports Main "HOL-Library.Word"
begin

unbundle bit_operations_syntax

section \<open>Data model (types.ts, class CPU8085)\<close>

text \<open>
  The simulator keeps every 8-bit register masked with \<open>0xFF\<close> and every 16-bit
  pointer masked with \<open>0xFFFF\<close>; memory and the I/O ports are \<open>Uint8Array\<close>s of 65536
  and 256 entries. Registers are therefore 8-bit words, the two pointers 16-bit words,
  memory a function from 16-bit addresses to bytes and the ports a function from bytes
  to bytes. Arithmetic whose unmasked value the source inspects (carry out, borrow out)
  is done on \<open>int\<close>, as the source does it on JavaScript numbers. The only assignment
  to a register from outside the class is the keypad's \<open>cpu.registers.PC = startAddress\<close>,
  with an address parsed from four hexadecimal digits, so every state the application can
  reach has its registers in these ranges.
\<close>

type_synonym u8 = "8 word"
type_synonym u16 = "16 word"

record Registers =
  A :: u8
  B :: u8
  C :: u8
  D :: u8
  E :: u8
  H :: u8
  L :: u8
  SP :: u16
  PC :: u16

record Flags =
  S :: bool
  Z :: bool
  AC :: bool
  P :: bool
  CY :: bool

record CPU8085 =
  registers :: Registers
  flags :: Flags
  memory :: "u16 \<Rightarrow> u8"
  halted :: bool
  ioPorts :: "u8 \<Rightarrow> u8"

subsection \<open>reset and the constructor\<close>

definition reset :: "CPU8085 \<Rightarrow> CPU8085" where
  "reset s = s\<lparr>
     registers := \<lparr>A = 0, B = 0, C = 0, D = 0, E = 0, H = 0, L = 0, SP = 0xFFFE, PC = 0x0000\<rparr>,
     flags := \<lparr>S = False, Z = True, AC = False, P = True, CY = False\<rparr>,
     halted := False\<rparr>"

text \<open>The constructor zero-fills memory and ports and calls \<open>reset\<close>; the fields that
  \<open>reset\<close> overwrites are given their reset values directly.\<close>

definition new_CPU8085 :: CPU8085 where
  "new_CPU8085 = reset \<lparr>
     registers = \<lparr>A = 0, B = 0, C = 0, D = 0, E = 0, H = 0, L = 0, SP = 0xFFFE, PC = 0x0000\<rparr>,
     flags = \<lparr>S = False, Z = True, AC = False, P = True, CY = False\<rparr>,
     memory = (\<lambda>_. 0), halted = False, ioPorts = (\<lambda>_. 0)\<rparr>"

subsection \<open>Register assignment\<close>

text \<open>One setter per field the source assigns with \<open>this.registers.X = v\<close> or
  \<open>this.flags.X = v\<close>.\<close>

definition setA :: "u8 \<Rightarrow> CPU8085 \<Rightarrow> CPU8085" where
  "setA v s = s\<lparr>registers := (registers s)\<lparr>A := v\<rparr>\<rparr>"
definition setB :: "u8 \<Rightarrow> CPU8085 \<Rightarrow> CPU8085" where
  "setB v s = s\<lparr>registers := (registers s)\<lparr>B := v\<rparr>\<rparr>"
definition setC :: "u8 \<Rightarrow> CPU8085 \<Rightarrow> CPU8085" where
  "setC v s = s\<lparr>registers := (registers s)\<lparr>C := v\<rparr>\<rparr>"
definition setD :: "u8 \<Rightarrow> CPU8085 \<Rightarrow> CPU8085" where
  "setD v s = s\<lparr>registers := (registers s)\<lparr>D := v\<rparr>\<rparr>"
definition setE :: "u8 \<Rightarrow> CPU8085 \<Rightarrow> CPU8085" where
  "setE v s = s\<lparr>registers := (registers s)\<lparr>E := v\<rparr>\<rparr>"
definition setH :: "u8 \<Rightarrow> CPU8085 \<Rightarrow> CPU8085" where
  "setH v s = s\<lparr>registers := (registers s)\<lparr>H := v\<rparr>\<rparr>"
definition setL :: "u8 \<Rightarrow> CPU8085 \<Rightarrow> CPU8085" where
  "setL v s = s\<lparr>registers := (registers s)\<lparr>L := v\<rparr>\<rparr>"
definition setSP :: "u16 \<Rightarrow> CPU8085 \<Rightarrow> CPU8085" where
  "setSP v s = s\<lparr>registers := (registers s)\<lparr>SP := v\<rparr>\<rparr>"
definition setPC :: "u16 \<Rightarrow> CPU8085 \<Rightarrow> CPU8085" where
  "setPC v s = s\<lparr>registers := (registers s)\<lparr>PC := v\<rparr>\<rparr>"
definition setCY :: "bool \<Rightarrow> CPU8085 \<Rightarrow> CPU8085" where
  "setCY v s = s\<lparr>flags := (flags s)\<lparr>CY := v\<rparr>\<rparr>"
definition setAC :: "bool \<Rightarrow> CPU8085 \<Rightarrow> CPU8085" where
  "setAC v s = s\<lparr>flags := (flags s)\<lparr>AC := v\<rparr>\<rparr>"

subsection \<open>Memory access\<close>

text \<open>\<open>address & 0xFFFF\<close> is the identity on a 16-bit word, and \<open>address + 1\<close> on a
  16-bit word already wraps as the mask in \<open>readByte\<close>/\<open>writeByte\<close> makes it.\<close>

definition readByte :: "CPU8085 \<Rightarrow> u16 \<Rightarrow> u8" where
  "readByte s address = memory s (address AND 0xFFFF)"

definition writeByte :: "u16 \<Rightarrow> u8 \<Rightarrow> CPU8085 \<Rightarrow> CPU8085" where
  "writeByte address v s = s\<lparr>memory := (memory s)(address AND 0xFFFF := v AND 0xFF)\<rparr>"

definition readWord :: "CPU8085 \<Rightarrow> u16 \<Rightarrow> u16" where
  "readWord s address =
     (let low = readByte s address;
          high = readByte s (address + 1)
      in push_bit 8 (ucast high) OR ucast low)"

definition writeWord :: "u16 \<Rightarrow> u16 \<Rightarrow> CPU8085 \<Rightarrow> CPU8085" where
  "writeWord address v s =
     (let s1 = writeByte address (ucast (v AND 0xFF)) s
      in writeByte (address + 1) (ucast (drop_bit 8 v AND 0xFF)) s1)"

subsection \<open>Register pairs\<close>

definition getHL :: "CPU8085 \<Rightarrow> u16" where
  "getHL s = push_bit 8 (ucast (H (registers s))) OR ucast (L (registers s))"

definition setHL :: "u16 \<Rightarrow> CPU8085 \<Rightarrow> CPU8085" where
  "setHL v s = setL (ucast (v AND 0xFF)) (setH (ucast (drop_bit 8 v AND 0xFF)) s)"

definition getBC :: "CPU8085 \<Rightarrow> u16" where
  "getBC s = push_bit 8 (ucast (B (registers s))) OR ucast (C (registers s))"

definition setBC :: "u16 \<Rightarrow> CPU8085 \<Rightarrow> CPU8085" where
  "setBC v s = setC (ucast (v AND 0xFF)) (setB (ucast (drop_bit 8 v AND 0xFF)) s)"

definition getDE :: "CPU8085 \<Rightarrow> u16" where
  "getDE s = push_bit 8 (ucast (D (registers s))) OR ucast (E (registers s))"

definition setDE :: "u16 \<Rightarrow> CPU8085 \<Rightarrow> CPU8085" where
  "setDE v s = setE (ucast (v AND 0xFF)) (setD (ucast (drop_bit 8 v AND 0xFF)) s)"

subsection \<open>ALU helpers\<close>

text \<open>The parity loop of \<open>updateZSPFlags\<close>: \<open>for (i = 0; i < 8; i++) if ((val >> i) & 1)
  parityCount++\<close>.\<close>

function parityLoop :: "u8 \<Rightarrow> nat \<Rightarrow> nat \<Rightarrow> nat" where
  "parityLoop val i parityCount =
     (if i < 8
      then parityLoop val (i + 1)
             (if drop_bit i val AND 1 \<noteq> 0 then parityCount + 1 else parityCount)
      else parityCount)"
  by pat_completeness auto
termination
  by (relation "measure (\<lambda>(val, i, parityCount). 8 - i)") auto

declare parityLoop.simps [simp del]

definition updateZSPFlags :: "u8 \<Rightarrow> CPU8085 \<Rightarrow> CPU8085" where
  "updateZSPFlags v s =
     (let val = v AND 0xFF;
          parityCount = parityLoop val 0 0
      in s\<lparr>flags := (flags s)\<lparr>
           S := (val AND 0x80 \<noteq> 0),
           Z := (val = 0),
           P := (parityCount mod 2 = 0)\<rparr>\<rparr>)"

definition add8bit :: "u8 \<Rightarrow> u8 \<Rightarrow> bool \<Rightarrow> CPU8085 \<Rightarrow> u8 \<times> CPU8085" where
  "add8bit val1 val2 carryIn s =
     (let c = (if carryIn then 1 else 0 :: int);
          unmaskedResult = uint (val1 AND 0xFF) + uint (val2 AND 0xFF) + c;
          result = (word_of_int (unmaskedResult AND 0xFF) :: u8);
          s1 = setCY (unmaskedResult > 0xFF) s;
          s2 = setAC (((uint (val1 AND 0x0F) + uint (val2 AND 0x0F) + c) AND 0x10) \<noteq> 0) s1;
          s3 = updateZSPFlags result s2
      in (result, s3))"

definition sub8bit :: "u8 \<Rightarrow> u8 \<Rightarrow> bool \<Rightarrow> CPU8085 \<Rightarrow> u8 \<times> CPU8085" where
  "sub8bit val1 val2 borrowIn s =
     (let b = (if borrowIn then 1 else 0 :: int);
          unmaskedResult = uint (val1 AND 0xFF) - uint (val2 AND 0xFF) - b;
          result = (word_of_int (unmaskedResult AND 0xFF) :: u8);
          s1 = setCY (unmaskedResult < 0) s;
          s2 = setAC (((uint (val1 AND 0x0F) - uint (val2 AND 0x0F) - b) AND 0x10) \<noteq> 0) s1;
          s3 = updateZSPFlags result s2
      in (result, s3))"

definition dad :: "u16 \<Rightarrow> CPU8085 \<Rightarrow> CPU8085" where
  "dad val s =
     (let hl = getHL s;
          result = uint hl + uint val;
          s1 = setCY (result > 0xFFFF) s
      in setHL (word_of_int (result AND 0xFFFF)) s1)"

subsection \<open>Stack and status word\<close>

definition pushWord :: "u16 \<Rightarrow> CPU8085 \<Rightarrow> CPU8085" where
  "pushWord v s =
     (let s1 = setSP ((SP (registers s) - 1) AND 0xFFFF) s;
          s2 = writeByte (SP (registers s1)) (ucast (drop_bit 8 v AND 0xFF)) s1;
          s3 = setSP ((SP (registers s2) - 1) AND 0xFFFF) s2
      in writeByte (SP (registers s3)) (ucast (v AND 0xFF)) s3)"

definition popWord :: "CPU8085 \<Rightarrow> u16 \<times> CPU8085" where
  "popWord s =
     (let low = readByte s (SP (registers s));
          s1 = setSP ((SP (registers s) + 1) AND 0xFFFF) s;
          high = readByte s1 (SP (registers s1));
          s2 = setSP ((SP (registers s1) + 1) AND 0xFFFF) s1
      in (push_bit 8 (ucast high) OR ucast low, s2))"

definition getPSW :: "CPU8085 \<Rightarrow> u16" where
  "getPSW s =
     (let pswFlags0 = (0 :: u16);
          pswFlags1 = (if S (flags s) then pswFlags0 OR 0x80 else pswFlags0);
          pswFlags2 = (if Z (flags s) then pswFlags1 OR 0x40 else pswFlags1);
          pswFlags3 = (if AC (flags s) then pswFlags2 OR 0x10 else pswFlags2);
          pswFlags4 = (if P (flags s) then pswFlags3 OR 0x04 else pswFlags3);
          pswFlags5 = pswFlags4 OR 0x02;
          pswFlags6 = (if CY (flags s) then pswFlags5 OR 0x01 else pswFlags5)
      in push_bit 8 (ucast (A (registers s))) OR pswFlags6)"

definition setPSW :: "u16 \<Rightarrow> CPU8085 \<Rightarrow> CPU8085" where
  "setPSW v s =
     (let s1 = setA (ucast (drop_bit 8 v AND 0xFF)) s;
          pswFlags = v AND 0xFF
      in s1\<lparr>flags := (flags s1)\<lparr>
           S := (pswFlags AND 0x80 \<noteq> 0),
           Z := (pswFlags AND 0x40 \<noteq> 0),
           AC := (pswFlags AND 0x10 \<noteq> 0),
           P := (pswFlags AND 0x04 \<noteq> 0),
           CY := (pswFlags AND 0x01 \<noteq> 0)\<rparr>\<rparr>)"

section \<open>Fetch, decode, execute\<close>

text \<open>The block of \<open>case 0x27\<close> (DAA). The assignment \<open>this.flags.CY = true\<close> in the
  second \<open>if\<close> happens before \<open>add8bit\<close> runs, which assigns Carry again.\<close>

definition DAA :: "CPU8085 \<Rightarrow> CPU8085" where
  "DAA s =
     (let a = A (registers s);
          correction0 = (0 :: u8);
          lsn = a AND 0x0F;
          msn = drop_bit 4 a;
          oldCY = CY (flags s);
          correction1 = (if AC (flags s) \<or> lsn > 9 then correction0 + 0x06 else correction0);
          (correction2, s1) =
            (if CY (flags s) \<or> msn > 9 \<or> (msn \<ge> 9 \<and> lsn > 9)
             then (correction1 + 0x60, setCY True s)
             else (correction1, s));
          (r, s2) = add8bit a correction2 False s1;
          s3 = setA r s2
      in setCY (oldCY \<or> CY (flags s3)) s3)"

text \<open>The \<open>switch\<close> of \<open>executeInstruction\<close>, one branch per \<open>case\<close> label in the order
  of the source; the last branch is its \<open>default\<close>. \<open>POP PSW\<close> and \<open>PUSH PSW\<close> use
  \<open>setPSW\<close> and \<open>getPSW\<close>.\<close>

definition executeInstruction :: "u8 \<Rightarrow> CPU8085 \<Rightarrow> CPU8085" where
  "executeInstruction opcode s =
    (if opcode = 0x00 then s \<comment> \<open>NOP\<close>
     else if opcode = 0x01 then (let tempVal = readWord s (PC (registers s)); s1 = setBC tempVal s in setPC ((PC (registers s1) + 2) AND 0xFFFF) s1) \<comment> \<open>LXI B\<close>
     else if opcode = 0x11 then (let tempVal = readWord s (PC (registers s)); s1 = setDE tempVal s in setPC ((PC (registers s1) + 2) AND 0xFFFF) s1) \<comment> \<open>LXI D\<close>
     else if opcode = 0x21 then (let tempVal = readWord s (PC (registers s)); s1 = setHL tempVal s in setPC ((PC (registers s1) + 2) AND 0xFFFF) s1) \<comment> \<open>LXI H\<close>
     else if opcode = 0x31 then (let s1 = setSP (readWord s (PC (registers s))) s in setPC ((PC (registers s1) + 2) AND 0xFFFF) s1) \<comment> \<open>LXI SP\<close>
     else if opcode = 0x32 then (let tempAddr = readWord s (PC (registers s)); s1 = writeByte tempAddr (A (registers s)) s in setPC ((PC (registers s1) + 2) AND 0xFFFF) s1) \<comment> \<open>STA\<close>
     else if opcode = 0x3A then (let tempAddr = readWord s (PC (registers s)); s1 = setA (readByte s tempAddr) s in setPC ((PC (registers s1) + 2) AND 0xFFFF) s1) \<comment> \<open>LDA\<close>
     else if opcode = 0x06 then (let s1 = setB (readByte s (PC (registers s))) s in setPC ((PC (registers s1) + 1) AND 0xFFFF) s1) \<comment> \<open>MVI B\<close>
     else if opcode = 0x0E then (let s1 = setC (readByte s (PC (registers s))) s in setPC ((PC (registers s1) + 1) AND 0xFFFF) s1) \<comment> \<open>MVI C\<close>
     else if opcode = 0x16 then (let s1 = setD (readByte s (PC (registers s))) s in setPC ((PC (registers s1) + 1) AND 0xFFFF) s1) \<comment> \<open>MVI D\<close>
     else if opcode = 0x1E then (let s1 = setE (readByte s (PC (registers s))) s in setPC ((PC (registers s1) + 1) AND 0xFFFF) s1) \<comment> \<open>MVI E\<close>
     else if opcode = 0x26 then (let s1 = setH (readByte s (PC (registers s))) s in setPC ((PC (registers s1) + 1) AND 0xFFFF) s1) \<comment> \<open>MVI H\<close>
     else if opcode = 0x2E then (let s1 = setL (readByte s (PC (registers s))) s in setPC ((PC (registers s1) + 1) AND 0xFFFF) s1) \<comment> \<open>MVI L\<close>
     else if opcode = 0x36 then (let s1 = writeByte (getHL s) (readByte s (PC (registers s))) s in setPC ((PC (registers s1) + 1) AND 0xFFFF) s1) \<comment> \<open>MVI M\<close>
     else if opcode = 0x3E then (let s1 = setA (readByte s (PC (registers s))) s in setPC ((PC (registers s1) + 1) AND 0xFFFF) s1) \<comment> \<open>MVI A\<close>
     else if opcode = 0x40 then s \<comment> \<open>MOV B,B\<close>
     else if opcode = 0x41 then setB (C (registers s)) s \<comment> \<open>MOV B,C\<close>
     else if opcode = 0x42 then setB (D (registers s)) s \<comment> \<open>MOV B,D\<close>
     else if opcode = 0x43 then setB (E (registers s)) s \<comment> \<open>MOV B,E\<close>
     else if opcode = 0x44 then setB (H (registers s)) s \<comment> \<open>MOV B,H\<close>
     else if opcode = 0x45 then setB (L (registers s)) s \<comment> \<open>MOV B,L\<close>
     else if opcode = 0x46 then setB (readByte s (getHL s)) s \<comment> \<open>MOV B,M\<close>
     else if opcode = 0x47 then setB (A (registers s)) s \<comment> \<open>MOV B,A\<close>
     else if opcode = 0x48 then setC (B (registers s)) s \<comment> \<open>MOV C,B\<close>
     else if opcode = 0x49 then s \<comment> \<open>MOV C,C\<close>
     else if opcode = 0x4A then setC (D (registers s)) s \<comment> \<open>MOV C,D\<close>
     else if opcode = 0x4B then setC (E (registers s)) s \<comment> \<open>MOV C,E\<close>
     else if opcode = 0x4C then setC (H (registers s)) s \<comment> \<open>MOV C,H\<close>
     else if opcode = 0x4D then setC (L (registers s)) s \<comment> \<open>MOV C,L\<close>
     else if opcode = 0x4E then setC (readByte s (getHL s)) s \<comment> \<open>MOV C,M\<close>
     else if opcode = 0x4F then setC (A (registers s)) s \<comment> \<open>MOV C,A\<close>
     else if opcode = 0x50 then setD (B (registers s)) s \<comment> \<open>MOV D,B\<close>
     else if opcode = 0x51 then setD (C (registers s)) s \<comment> \<open>MOV D,C\<close>
     else if opcode = 0x52 then s \<comment> \<open>MOV D,D\<close>
     else if opcode = 0x53 then setD (E (registers s)) s \<comment> \<open>MOV D,E\<close>
     else if opcode = 0x54 then setD (H (registers s)) s \<comment> \<open>MOV D,H\<close>
     else if opcode = 0x55 then setD (L (registers s)) s \<comment> \<open>MOV D,L\<close>
     else if opcode = 0x56 then setD (readByte s (getHL s)) s \<comment> \<open>MOV D,M\<close>
     else if opcode = 0x57 then setD (A (registers s)) s \<comment> \<open>MOV D,A\<close>
     else if opcode = 0x58 then setE (B (registers s)) s \<comment> \<open>MOV E,B\<close>
     else if opcode = 0x59 then setE (C (registers s)) s \<comment> \<open>MOV E,C\<close>
     else if opcode = 0x5A then setE (D (registers s)) s \<comment> \<open>MOV E,D\<close>
     else if opcode = 0x5B then s \<comment> \<open>MOV E,E\<close>
     else if opcode = 0x5C then setE (H (registers s)) s \<comment> \<open>MOV E,H\<close>
     else if opcode = 0x5D then setE (L (registers s)) s \<comment> \<open>MOV E,L\<close>
     else if opcode = 0x5E then setE (readByte s (getHL s)) s \<comment> \<open>MOV E,M\<close>
     else if opcode = 0x5F then setE (A (registers s)) s \<comment> \<open>MOV E,A\<close>
     else if opcode = 0x60 then setH (B (registers s)) s \<comment> \<open>MOV H,B\<close>
     else if opcode = 0x61 then setH (C (registers s)) s \<comment> \<open>MOV H,C\<close>
     else if opcode = 0x62 then setH (D (registers s)) s \<comment> \<open>MOV H,D\<close>
     else if opcode = 0x63 then setH (E (registers s)) s \<comment> \<open>MOV H,E\<close>
     else if opcode = 0x64 then s \<comment> \<open>MOV H,H\<close>
     else if opcode = 0x65 then setH (L (registers s)) s \<comment> \<open>MOV H,L\<close>
     else if opcode = 0x66 then setH (readByte s (getHL s)) s \<comment> \<open>MOV H,M\<close>
     else if opcode = 0x67 then setH (A (registers s)) s \<comment> \<open>MOV H,A\<close>
     else if opcode = 0x68 then setL (B (registers s)) s \<comment> \<open>MOV L,B\<close>
     else if opcode = 0x69 then setL (C (registers s)) s \<comment> \<open>MOV L,C\<close>
     else if opcode = 0x6A then setL (D (registers s)) s \<comment> \<open>MOV L,D\<close>
     else if opcode = 0x6B then setL (E (registers s)) s \<comment> \<open>MOV L,E\<close>
     else if opcode = 0x6C then setL (H (registers s)) s \<comment> \<open>MOV L,H\<close>
     else if opcode = 0x6D then s \<comment> \<open>MOV L,L\<close>
     else if opcode = 0x6E then setL (readByte s (getHL s)) s \<comment> \<open>MOV L,M\<close>
     else if opcode = 0x6F then setL (A (registers s)) s \<comment> \<open>MOV L,A\<close>
     else if opcode = 0x70 then writeByte (getHL s) (B (registers s)) s \<comment> \<open>MOV M,B\<close>
     else if opcode = 0x71 then writeByte (getHL s) (C (registers s)) s \<comment> \<open>MOV M,C\<close>
     else if opcode = 0x72 then writeByte (getHL s) (D (registers s)) s \<comment> \<open>MOV M,D\<close>
     else if opcode = 0x73 then writeByte (getHL s) (E (registers s)) s \<comment> \<open>MOV M,E\<close>
     else if opcode = 0x74 then writeByte (getHL s) (H (registers s)) s \<comment> \<open>MOV M,H\<close>
     else if opcode = 0x75 then writeByte (getHL s) (L (registers s)) s \<comment> \<open>MOV M,L\<close>
     else if opcode = 0x77 then writeByte (getHL s) (A (registers s)) s \<comment> \<open>MOV M,A\<close>
     else if opcode = 0x78 then setA (B (registers s)) s \<comment> \<open>MOV A,B\<close>
     else if opcode = 0x79 then setA (C (registers s)) s \<comment> \<open>MOV A,C\<close>
     else if opcode = 0x7A then setA (D (registers s)) s \<comment> \<open>MOV A,D\<close>
     else if opcode = 0x7B then setA (E (registers s)) s \<comment> \<open>MOV A,E\<close>
     else if opcode = 0x7C then setA (H (registers s)) s \<comment> \<open>MOV A,H\<close>
     else if opcode = 0x7D then setA (L (registers s)) s \<comment> \<open>MOV A,L\<close>
     else if opcode = 0x7E then setA (readByte s (getHL s)) s \<comment> \<open>MOV A,M\<close>
     else if opcode = 0x7F then s \<comment> \<open>MOV A,A\<close>
     else if opcode = 0x76 then s\<lparr>halted := True\<rparr> \<comment> \<open>HLT\<close>
     else if opcode = 0x80 then (let (r, s1) = add8bit (A (registers s)) (B (registers s)) (False) s in setA r s1) \<comment> \<open>ADD B\<close>
     else if opcode = 0x81 then (let (r, s1) = add8bit (A (registers s)) (C (registers s)) (False) s in setA r s1) \<comment> \<open>ADD C\<close>
     else if opcode = 0x82 then (let (r, s1) = add8bit (A (registers s)) (D (registers s)) (False) s in setA r s1) \<comment> \<open>ADD D\<close>
     else if opcode = 0x83 then (let (r, s1) = add8bit (A (registers s)) (E (registers s)) (False) s in setA r s1) \<comment> \<open>ADD E\<close>
     else if opcode = 0x84 then (let (r, s1) = add8bit (A (registers s)) (H (registers s)) (False) s in setA r s1) \<comment> \<open>ADD H\<close>
     else if opcode = 0x85 then (let (r, s1) = add8bit (A (registers s)) (L (registers s)) (False) s in setA r s1) \<comment> \<open>ADD L\<close>
     else if opcode = 0x86 then (let (r, s1) = add8bit (A (registers s)) (readByte s (getHL s)) (False) s in setA r s1) \<comment> \<open>ADD M\<close>
     else if opcode = 0x87 then (let (r, s1) = add8bit (A (registers s)) (A (registers s)) (False) s in setA r s1) \<comment> \<open>ADD A\<close>
     else if opcode = 0x88 then (let (r, s1) = add8bit (A (registers s)) (B (registers s)) (CY (flags s)) s in setA r s1) \<comment> \<open>ADC B\<close>
     else if opcode = 0x89 then (let (r, s1) = add8bit (A (registers s)) (C (registers s)) (CY (flags s)) s in setA r s1) \<comment> \<open>ADC C\<close>
     else if opcode = 0x8A then (let (r, s1) = add8bit (A (registers s)) (D (registers s)) (CY (flags s)) s in setA r s1) \<comment> \<open>ADC D\<close>
     else if opcode = 0x8B then (let (r, s1) = add8bit (A (registers s)) (E (registers s)) (CY (flags s)) s in setA r s1) \<comment> \<open>ADC E\<close>
     else if opcode = 0x8C then (let (r, s1) = add8bit (A (registers s)) (H (registers s)) (CY (flags s)) s in setA r s1) \<comment> \<open>ADC H\<close>
     else if opcode = 0x8D then (let (r, s1) = add8bit (A (registers s)) (L (registers s)) (CY (flags s)) s in setA r s1) \<comment> \<open>ADC L\<close>
     else if opcode = 0x8E then (let (r, s1) = add8bit (A (registers s)) (readByte s (getHL s)) (CY (flags s)) s in setA r s1) \<comment> \<open>ADC M\<close>
     else if opcode = 0x8F then (let (r, s1) = add8bit (A (registers s)) (A (registers s)) (CY (flags s)) s in setA r s1) \<comment> \<open>ADC A\<close>
     else if opcode = 0x90 then (let (r, s1) = sub8bit (A (registers s)) (B (registers s)) (False) s in setA r s1) \<comment> \<open>SUB B\<close>
     else if opcode = 0x91 then (let (r, s1) = sub8bit (A (registers s)) (C (registers s)) (False) s in setA r s1) \<comment> \<open>SUB C\<close>
     else if opcode = 0x92 then (let (r, s1) = sub8bit (A (registers s)) (D (registers s)) (False) s in setA r s1) \<comment> \<open>SUB D\<close>
     else if opcode = 0x93 then (let (r, s1) = sub8bit (A (registers s)) (E (registers s)) (False) s in setA r s1) \<comment> \<open>SUB E\<close>
     else if opcode = 0x94 then (let (r, s1) = sub8bit (A (registers s)) (H (registers s)) (False) s in setA r s1) \<comment> \<open>SUB H\<close>
     else if opcode = 0x95 then (let (r, s1) = sub8bit (A (registers s)) (L (registers s)) (False) s in setA r s1) \<comment> \<open>SUB L\<close>
     else if opcode = 0x96 then (let (r, s1) = sub8bit (A (registers s)) (readByte s (getHL s)) (False) s in setA r s1) \<comment> \<open>SUB M\<close>
     else if opcode = 0x97 then (let (r, s1) = sub8bit (A (registers s)) (A (registers s)) (False) s in setA r s1) \<comment> \<open>SUB A\<close>
     else if opcode = 0x98 then (let (r, s1) = sub8bit (A (registers s)) (B (registers s)) (CY (flags s)) s in setA r s1) \<comment> \<open>SBB B\<close>
     else if opcode = 0x99 then (let (r, s1) = sub8bit (A (registers s)) (C (registers s)) (CY (flags s)) s in setA r s1) \<comment> \<open>SBB C\<close>
     else if opcode = 0x9A then (let (r, s1) = sub8bit (A (registers s)) (D (registers s)) (CY (flags s)) s in setA r s1) \<comment> \<open>SBB D\<close>
     else if opcode = 0x9B then (let (r, s1) = sub8bit (A (registers s)) (E (registers s)) (CY (flags s)) s in setA r s1) \<comment> \<open>SBB E\<close>
     else if opcode = 0x9C then (let (r, s1) = sub8bit (A (registers s)) (H (registers s)) (CY (flags s)) s in setA r s1) \<comment> \<open>SBB H\<close>
     else if opcode = 0x9D then (let (r, s1) = sub8bit (A (registers s)) (L (registers s)) (CY (flags s)) s in setA r s1) \<comment> \<open>SBB L\<close>
     else if opcode = 0x9E then (let (r, s1) = sub8bit (A (registers s)) (readByte s (getHL s)) (CY (flags s)) s in setA r s1) \<comment> \<open>SBB M\<close>
     else if opcode = 0x9F then (let (r, s1) = sub8bit (A (registers s)) (A (registers s)) (CY (flags s)) s in setA r s1) \<comment> \<open>SBB A\<close>
     else if opcode = 0x04 then (let oldCY = CY (flags s); (r, s1) = add8bit (B (registers s)) 1 False s; s2 = setB r s1 in setCY oldCY s2) \<comment> \<open>INR B\<close>
     else if opcode = 0x0C then (let oldCY = CY (flags s); (r, s1) = add8bit (C (registers s)) 1 False s; s2 = setC r s1 in setCY oldCY s2) \<comment> \<open>INR C\<close>
     else if opcode = 0x14 then (let oldCY = CY (flags s); (r, s1) = add8bit (D (registers s)) 1 False s; s2 = setD r s1 in setCY oldCY s2) \<comment> \<open>INR D\<close>
     else if opcode = 0x1C then (let oldCY = CY (flags s); (r, s1) = add8bit (E (registers s)) 1 False s; s2 = setE r s1 in setCY oldCY s2) \<comment> \<open>INR E\<close>
     else if opcode = 0x24 then (let oldCY = CY (flags s); (r, s1) = add8bit (H (registers s)) 1 False s; s2 = setH r s1 in setCY oldCY s2) \<comment> \<open>INR H\<close>
     else if opcode = 0x2C then (let oldCY = CY (flags s); (r, s1) = add8bit (L (registers s)) 1 False s; s2 = setL r s1 in setCY oldCY s2) \<comment> \<open>INR L\<close>
     else if opcode = 0x34 then (let oldCY = CY (flags s); tempVal = readByte s (getHL s); (tempVal', s1) = add8bit tempVal 1 False s; s2 = writeByte (getHL s1) tempVal' s1 in setCY oldCY s2) \<comment> \<open>INR M\<close>
     else if opcode = 0x3C then (let oldCY = CY (flags s); (r, s1) = add8bit (A (registers s)) 1 False s; s2 = setA r s1 in setCY oldCY s2) \<comment> \<open>INR A\<close>
     else if opcode = 0x05 then (let oldCY = CY (flags s); (r, s1) = sub8bit (B (registers s)) 1 False s; s2 = setB r s1 in setCY oldCY s2) \<comment> \<open>DCR B\<close>
     else if opcode = 0x0D then (let oldCY = CY (flags s); (r, s1) = sub8bit (C (registers s)) 1 False s; s2 = setC r s1 in setCY oldCY s2) \<comment> \<open>DCR C\<close>
     else if opcode = 0x15 then (let oldCY = CY (flags s); (r, s1) = sub8bit (D (registers s)) 1 False s; s2 = setD r s1 in setCY oldCY s2) \<comment> \<open>DCR D\<close>
     else if opcode = 0x1D then (let oldCY = CY (flags s); (r, s1) = sub8bit (E (registers s)) 1 False s; s2 = setE r s1 in setCY oldCY s2) \<comment> \<open>DCR E\<close>
     else if opcode = 0x25 then (let oldCY = CY (flags s); (r, s1) = sub8bit (H (registers s)) 1 False s; s2 = setH r s1 in setCY oldCY s2) \<comment> \<open>DCR H\<close>
     else if opcode = 0x2D then (let oldCY = CY (flags s); (r, s1) = sub8bit (L (registers s)) 1 False s; s2 = setL r s1 in setCY oldCY s2) \<comment> \<open>DCR L\<close>
     else if opcode = 0x35 then (let oldCY = CY (flags s); tempVal = readByte s (getHL s); (tempVal', s1) = sub8bit tempVal 1 False s; s2 = writeByte (getHL s1) tempVal' s1 in setCY oldCY s2) \<comment> \<open>DCR M\<close>
     else if opcode = 0x3D then (let oldCY = CY (flags s); (r, s1) = sub8bit (A (registers s)) 1 False s; s2 = setA r s1 in setCY oldCY s2) \<comment> \<open>DCR A\<close>
     else if opcode = 0xC6 then (let tempVal = readByte s (PC (registers s)); (r, s1) = add8bit (A (registers s)) tempVal (False) s; s2 = setA r s1 in setPC ((PC (registers s2) + 1) AND 0xFFFF) s2) \<comment> \<open>ADI\<close>
     else if opcode = 0xCE then (let tempVal = readByte s (PC (registers s)); (r, s1) = add8bit (A (registers s)) tempVal (CY (flags s)) s; s2 = setA r s1 in setPC ((PC (registers s2) + 1) AND 0xFFFF) s2) \<comment> \<open>ACI\<close>
     else if opcode = 0xD6 then (let tempVal = readByte s (PC (registers s)); (r, s1) = sub8bit (A (registers s)) tempVal (False) s; s2 = setA r s1 in setPC ((PC (registers s2) + 1) AND 0xFFFF) s2) \<comment> \<open>SUI\<close>
     else if opcode = 0xDE then (let tempVal = readByte s (PC (registers s)); (r, s1) = sub8bit (A (registers s)) tempVal (CY (flags s)) s; s2 = setA r s1 in setPC ((PC (registers s2) + 1) AND 0xFFFF) s2) \<comment> \<open>SBI\<close>
     else if opcode = 0xC3 then setPC (readWord s (PC (registers s))) s \<comment> \<open>JMP\<close>
     else if opcode = 0xC2 then (let condition = \<not> Z (flags s); tempAddr = readWord s (PC (registers s)) in if condition then setPC tempAddr s else setPC ((PC (registers s) + 2) AND 0xFFFF) s) \<comment> \<open>JNZ\<close>
     else if opcode = 0xCA then (let condition = Z (flags s); tempAddr = readWord s (PC (registers s)) in if condition then setPC tempAddr s else setPC ((PC (registers s) + 2) AND 0xFFFF) s) \<comment> \<open>JZ\<close>
     else if opcode = 0xD2 then (let condition = \<not> CY (flags s); tempAddr = readWord s (PC (registers s)) in if condition then setPC tempAddr s else setPC ((PC (registers s) + 2) AND 0xFFFF) s) \<comment> \<open>JNC\<close>
     else if opcode = 0xDA then (let condition = CY (flags s); tempAddr = readWord s (PC (registers s)) in if condition then setPC tempAddr s else setPC ((PC (registers s) + 2) AND 0xFFFF) s) \<comment> \<open>JC\<close>
     else if opcode = 0xE2 then (let condition = \<not> P (flags s); tempAddr = readWord s (PC (registers s)) in if condition then setPC tempAddr s else setPC ((PC (registers s) + 2) AND 0xFFFF) s) \<comment> \<open>JPO\<close>
     else if opcode = 0xEA then (let condition = P (flags s); tempAddr = readWord s (PC (registers s)) in if condition then setPC tempAddr s else setPC ((PC (registers s) + 2) AND 0xFFFF) s) \<comment> \<open>JPE\<close>
     else if opcode = 0xF2 then (let condition = \<not> S (flags s); tempAddr = readWord s (PC (registers s)) in if condition then setPC tempAddr s else setPC ((PC (registers s) + 2) AND 0xFFFF) s) \<comment> \<open>JP\<close>
     else if opcode = 0xFA then (let condition = S (flags s); tempAddr = readWord s (PC (registers s)) in if condition then setPC tempAddr s else setPC ((PC (registers s) + 2) AND 0xFFFF) s) \<comment> \<open>JM\<close>
     else if opcode = 0xCD then (let tempAddr = readWord s (PC (registers s)); s1 = pushWord ((PC (registers s) + 2) AND 0xFFFF) s in setPC tempAddr s1) \<comment> \<open>CALL\<close>
     else if opcode = 0xC4 then (let condition = \<not> Z (flags s); tempAddr = readWord s (PC (registers s)) in if condition then (let s1 = pushWord ((PC (registers s) + 2) AND 0xFFFF) s in setPC tempAddr s1) else setPC ((PC (registers s) + 2) AND 0xFFFF) s) \<comment> \<open>CNZ\<close>
     else if opcode = 0xCC then (let condition = Z (flags s); tempAddr = readWord s (PC (registers s)) in if condition then (let s1 = pushWord ((PC (registers s) + 2) AND 0xFFFF) s in setPC tempAddr s1) else setPC ((PC (registers s) + 2) AND 0xFFFF) s) \<comment> \<open>CZ\<close>
     else if opcode = 0xD4 then (let condition = \<not> CY (flags s); tempAddr = readWord s (PC (registers s)) in if condition then (let s1 = pushWord ((PC (registers s) + 2) AND 0xFFFF) s in setPC tempAddr s1) else setPC ((PC (registers s) + 2) AND 0xFFFF) s) \<comment> \<open>CNC\<close>
     else if opcode = 0xDC then (let condition = CY (flags s); tempAddr = readWord s (PC (registers s)) in if condition then (let s1 = pushWord ((PC (registers s) + 2) AND 0xFFFF) s in setPC tempAddr s1) else setPC ((PC (registers s) + 2) AND 0xFFFF) s) \<comment> \<open>CC\<close>
     else if opcode = 0xC9 then (let (w, s1) = popWord s in setPC w s1) \<comment> \<open>RET\<close>
     else if opcode = 0xC0 then (if \<not> Z (flags s) then (let (w, s1) = popWord s in setPC w s1) else s) \<comment> \<open>RNZ\<close>
     else if opcode = 0xC8 then (if Z (flags s) then (let (w, s1) = popWord s in setPC w s1) else s) \<comment> \<open>RZ\<close>
     else if opcode = 0xD0 then (if \<not> CY (flags s) then (let (w, s1) = popWord s in setPC w s1) else s) \<comment> \<open>RNC\<close>
     else if opcode = 0xD8 then (if CY (flags s) then (let (w, s1) = popWord s in setPC w s1) else s) \<comment> \<open>RC\<close>
     else if opcode = 0xC1 then (let (w, s1) = popWord s in setBC w s1) \<comment> \<open>POP BC\<close>
     else if opcode = 0xD1 then (let (w, s1) = popWord s in setDE w s1) \<comment> \<open>POP DE\<close>
     else if opcode = 0xE1 then (let (w, s1) = popWord s in setHL w s1) \<comment> \<open>POP HL\<close>
     else if opcode = 0xF1 then (let (w, s1) = popWord s in setPSW w s1) \<comment> \<open>POP PSW\<close>
     else if opcode = 0xC5 then pushWord (getBC s) s \<comment> \<open>PUSH BC\<close>
     else if opcode = 0xD5 then pushWord (getDE s) s \<comment> \<open>PUSH DE\<close>
     else if opcode = 0xE5 then pushWord (getHL s) s \<comment> \<open>PUSH HL\<close>
     else if opcode = 0xF5 then pushWord (getPSW s) s \<comment> \<open>PUSH PSW\<close>
     else if opcode = 0xDB then (let tempVal = readByte s (PC (registers s)); s1 = setA (ioPorts s tempVal) s in setPC ((PC (registers s1) + 1) AND 0xFFFF) s1) \<comment> \<open>IN\<close>
     else if opcode = 0xD3 then (let tempVal = readByte s (PC (registers s)); s1 = s\<lparr>ioPorts := (ioPorts s)(tempVal := A (registers s))\<rparr> in setPC ((PC (registers s1) + 1) AND 0xFFFF) s1) \<comment> \<open>OUT\<close>
     else if opcode = 0xEB then (let tempH = H (registers s); tempL = L (registers s); s1 = setH (D (registers s)) s; s2 = setL (E (registers s1)) s1; s3 = setD tempH s2 in setE tempL s3) \<comment> \<open>XCHG\<close>
     else if opcode = 0xE3 then (let lFromStack = readByte s (SP (registers s)); hFromStack = readByte s (SP (registers s) + 1); s1 = writeByte (SP (registers s)) (L (registers s)) s; s2 = writeByte (SP (registers s1) + 1) (H (registers s1)) s1; s3 = setL lFromStack s2 in setH hFromStack s3) \<comment> \<open>XTHL\<close>
     else if opcode = 0xF9 then setSP (getHL s) s \<comment> \<open>SPHL\<close>
     else if opcode = 0xE9 then setPC (getHL s) s \<comment> \<open>PCHL\<close>
     else if opcode = 0x07 then (let msb = drop_bit 7 (A (registers s) AND 0x80); s1 = setA ((push_bit 1 (A (registers s)) OR msb) AND 0xFF) s in setCY (msb = 1) s1) \<comment> \<open>RLC\<close>
     else if opcode = 0x0F then (let lsb = A (registers s) AND 0x01; s1 = setA ((drop_bit 1 (A (registers s)) OR push_bit 7 lsb) AND 0xFF) s in setCY (lsb = 1) s1) \<comment> \<open>RRC\<close>
     else if opcode = 0x17 then (let oldCY = (if CY (flags s) then 1 else 0 :: u8); s1 = setCY (A (registers s) AND 0x80 \<noteq> 0) s in setA ((push_bit 1 (A (registers s1)) OR oldCY) AND 0xFF) s1) \<comment> \<open>RAL\<close>
     else if opcode = 0x1F then (let oldCY = (if CY (flags s) then 1 else 0 :: u8); s1 = setCY (A (registers s) AND 0x01 \<noteq> 0) s in setA ((drop_bit 1 (A (registers s1)) OR push_bit 7 oldCY) AND 0xFF) s1) \<comment> \<open>RAR\<close>
     else if opcode = 0x27 then DAA s \<comment> \<open>DAA\<close>
     else if opcode = 0x2F then setA (NOT (A (registers s)) AND 0xFF) s \<comment> \<open>CMA\<close>
     else if opcode = 0x37 then setCY True s \<comment> \<open>STC\<close>
     else if opcode = 0x3F then setCY (\<not> CY (flags s)) s \<comment> \<open>CMC\<close>
     else if opcode = 0xA0 then (let s1 = setA (A (registers s) AND B (registers s)) s; s2 = updateZSPFlags (A (registers s1)) s1; s3 = setCY False s2 in setAC False s3) \<comment> \<open>ANA B\<close>
     else if opcode = 0xA1 then (let s1 = setA (A (registers s) AND C (registers s)) s; s2 = updateZSPFlags (A (registers s1)) s1; s3 = setCY False s2 in setAC False s3) \<comment> \<open>ANA C\<close>
     else if opcode = 0xA6 then (let s1 = setA (A (registers s) AND readByte s (getHL s)) s; s2 = updateZSPFlags (A (registers s1)) s1; s3 = setCY False s2 in setAC False s3) \<comment> \<open>ANA M\<close>
     else if opcode = 0xA7 then (let s1 = setA (A (registers s) AND A (registers s)) s; s2 = updateZSPFlags (A (registers s1)) s1; s3 = setCY False s2 in setAC False s3) \<comment> \<open>ANA A\<close>
     else if opcode = 0xE6 then (let tempVal = readByte s (PC (registers s)); s1 = setA (A (registers s) AND tempVal) s; s2 = updateZSPFlags (A (registers s1)) s1; s3 = setCY False s2; s4 = setAC False s3 in setPC ((PC (registers s4) + 1) AND 0xFFFF) s4) \<comment> \<open>ANI\<close>
     else if opcode = 0xA8 then (let s1 = setA (A (registers s) XOR B (registers s)) s; s2 = updateZSPFlags (A (registers s1)) s1; s3 = setCY False s2 in setAC False s3) \<comment> \<open>XRA B\<close>
     else if opcode = 0xAE then (let s1 = setA (A (registers s) XOR readByte s (getHL s)) s; s2 = updateZSPFlags (A (registers s1)) s1; s3 = setCY False s2 in setAC False s3) \<comment> \<open>XRA M\<close>
     else if opcode = 0xAF then (let s1 = setA (A (registers s) XOR A (registers s)) s; s2 = updateZSPFlags (A (registers s1)) s1; s3 = setCY False s2 in setAC False s3) \<comment> \<open>XRA A\<close>
     else if opcode = 0xEE then (let tempVal = readByte s (PC (registers s)); s1 = setA (A (registers s) XOR tempVal) s; s2 = updateZSPFlags (A (registers s1)) s1; s3 = setCY False s2; s4 = setAC False s3 in setPC ((PC (registers s4) + 1) AND 0xFFFF) s4) \<comment> \<open>XRI\<close>
     else if opcode = 0xB0 then (let s1 = setA (A (registers s) OR B (registers s)) s; s2 = updateZSPFlags (A (registers s1)) s1; s3 = setCY False s2 in setAC False s3) \<comment> \<open>ORA B\<close>
     else if opcode = 0xB6 then (let s1 = setA (A (registers s) OR readByte s (getHL s)) s; s2 = updateZSPFlags (A (registers s1)) s1; s3 = setCY False s2 in setAC False s3) \<comment> \<open>ORA M\<close>
     else if opcode = 0xB7 then (let s1 = setA (A (registers s) OR A (registers s)) s; s2 = updateZSPFlags (A (registers s1)) s1; s3 = setCY False s2 in setAC False s3) \<comment> \<open>ORA A\<close>
     else if opcode = 0xF6 then (let tempVal = readByte s (PC (registers s)); s1 = setA (A (registers s) OR tempVal) s; s2 = updateZSPFlags (A (registers s1)) s1; s3 = setCY False s2; s4 = setAC False s3 in setPC ((PC (registers s4) + 1) AND 0xFFFF) s4) \<comment> \<open>ORI\<close>
     else if opcode = 0xB8 then snd (sub8bit (A (registers s)) (B (registers s)) False s) \<comment> \<open>CMP B\<close>
     else if opcode = 0xBE then snd (sub8bit (A (registers s)) (readByte s (getHL s)) False s) \<comment> \<open>CMP M\<close>
     else if opcode = 0xBF then snd (sub8bit (A (registers s)) (A (registers s)) False s) \<comment> \<open>CMP A\<close>
     else if opcode = 0xFE then (let tempVal = readByte s (PC (registers s)); (r, s1) = sub8bit (A (registers s)) tempVal False s in setPC ((PC (registers s1) + 1) AND 0xFFFF) s1) \<comment> \<open>CPI\<close>
     else if opcode = 0x09 then dad (getBC s) s \<comment> \<open>DAD B\<close>
     else if opcode = 0x19 then dad (getDE s) s \<comment> \<open>DAD D\<close>
     else if opcode = 0x29 then dad (getHL s) s \<comment> \<open>DAD H\<close>
     else if opcode = 0x39 then dad (SP (registers s)) s \<comment> \<open>DAD SP\<close>
     else if opcode = 0x03 then setBC ((getBC s + 1) AND 0xFFFF) s \<comment> \<open>INX B\<close>
     else if opcode = 0x0B then setBC ((getBC s - 1) AND 0xFFFF) s \<comment> \<open>DCX B\<close>
     else if opcode = 0x13 then setDE ((getDE s + 1) AND 0xFFFF) s \<comment> \<open>INX D\<close>
     else if opcode = 0x1B then setDE ((getDE s - 1) AND 0xFFFF) s \<comment> \<open>DCX D\<close>
     else if opcode = 0x23 then setHL ((getHL s + 1) AND 0xFFFF) s \<comment> \<open>INX H\<close>
     else if opcode = 0x2B then setHL ((getHL s - 1) AND 0xFFFF) s \<comment> \<open>DCX H\<close>
     else if opcode = 0x33 then setSP ((SP (registers s) + 1) AND 0xFFFF) s \<comment> \<open>INX SP\<close>
     else if opcode = 0x3B then setSP ((SP (registers s) - 1) AND 0xFFFF) s \<comment> \<open>DCX SP\<close>
     else if opcode = 0x02 then writeByte (getBC s) (A (registers s)) s \<comment> \<open>STAX B\<close>
     else if opcode = 0x12 then writeByte (getDE s) (A (registers s)) s \<comment> \<open>STAX D\<close>
     else if opcode = 0x0A then setA (readByte s (getBC s)) s \<comment> \<open>LDAX B\<close>
     else if opcode = 0x1A then setA (readByte s (getDE s)) s \<comment> \<open>LDAX D\<close>
     else if opcode = 0x22 then (let tempAddr = readWord s (PC (registers s)); s1 = writeWord tempAddr (getHL s) s in setPC ((PC (registers s1) + 2) AND 0xFFFF) s1) \<comment> \<open>SHLD\<close>
     else if opcode = 0x2A then (let tempAddr = readWord s (PC (registers s)); s1 = setHL (readWord s tempAddr) s in setPC ((PC (registers s1) + 2) AND 0xFFFF) s1) \<comment> \<open>LHLD\<close>
     else if opcode = 0xFB then s \<comment> \<open>EI\<close>
     else if opcode = 0xF3 then s \<comment> \<open>DI\<close>
     else if opcode = 0x20 then s \<comment> \<open>RIM\<close>
     else if opcode = 0x30 then s \<comment> \<open>SIM\<close>
     else if opcode = 0xC7 then (let s1 = pushWord (PC (registers s)) s in setPC 0x0000 s1) \<comment> \<open>RST 0\<close>
     else if opcode = 0xCF then (let s1 = pushWord (PC (registers s)) s in setPC 0x0008 s1) \<comment> \<open>RST 1\<close>
     else if opcode = 0xD7 then (let s1 = pushWord (PC (registers s)) s in setPC 0x0010 s1) \<comment> \<open>RST 2\<close>
     else if opcode = 0xDF then (let s1 = pushWord (PC (registers s)) s in setPC 0x0018 s1) \<comment> \<open>RST 3\<close>
     else if opcode = 0xE7 then (let s1 = pushWord (PC (registers s)) s in setPC 0x0020 s1) \<comment> \<open>RST 4\<close>
     else if opcode = 0xEF then (let s1 = pushWord (PC (registers s)) s in setPC 0x0028 s1) \<comment> \<open>RST 5\<close>
     else if opcode = 0xF7 then (let s1 = pushWord (PC (registers s)) s in setPC 0x0030 s1) \<comment> \<open>RST 6\<close>
     else if opcode = 0xFF then (let s1 = pushWord (PC (registers s)) s in setPC 0x0038 s1) \<comment> \<open>RST 7\<close>
     else s\<lparr>halted := True\<rparr>)"

definition step :: "CPU8085 \<Rightarrow> CPU8085" where
  "step s =
     (if halted s then s
      else let opcode = readByte s (PC (registers s));
               s1 = setPC ((PC (registers s) + 1) AND 0xFFFF) s
           in executeInstruction opcode s1)"

section \<open>Auxiliary facts\<close>

lemmas set_defs = setA_def setB_def setC_def setD_def setE_def setH_def setL_def
  setSP_def setPC_def setCY_def setAC_def

lemmas init_defs = new_CPU8085_def reset_def writeByte_def readByte_def set_defs

subsection \<open>Masks\<close>

lemma int_and_255: "(x::int) AND 255 = x mod 256"
  using take_bit_eq_mask[of 8 x] by (simp add: take_bit_eq_mod mask_eq_exp_minus_1)

lemma and_ff_u8 [simp]: "(v::u8) AND 255 = v"
proof -
  have e: "(255::u8) = - 1" by simp
  show ?thesis unfolding e by simp
qed

lemma and_ffff_u16 [simp]: "(v::u16) AND 65535 = v"
proof -
  have e: "(65535::u16) = - 1" by simp
  show ?thesis unfolding e by simp
qed

lemma word_of_int_and_255: "(word_of_int (x AND 255) :: u8) = word_of_int x"
  by (simp add: int_and_255 word_of_int_eq_iff take_bit_eq_mod)

lemma ucast_and_ff [simp]: "(ucast ((w::u16) AND 0xFF) :: u8) = ucast w"
proof -
  have e: "(255::u16) = mask 8" by (simp add: mask_eq_exp_minus_1)
  show ?thesis unfolding e by (rule bit_word_eqI) (auto simp: bit_simps)
qed

lemma bit_and_ff_u16: "bit ((x::u16) AND 0xFF) n = (bit x n \<and> n < 8)"
proof -
  have e: "(255::u16) = mask 8" by (simp add: mask_eq_exp_minus_1)
  show ?thesis unfolding e by (auto simp: bit_simps)
qed

lemma low_byte_tests:
  "(((x::u16) AND 0xFF) AND 0x80 \<noteq> 0) = bit x 7"
  "(((x::u16) AND 0xFF) AND 0x40 \<noteq> 0) = bit x 6"
  "(((x::u16) AND 0xFF) AND 0x10 \<noteq> 0) = bit x 4"
  "(((x::u16) AND 0xFF) AND 0x04 \<noteq> 0) = bit x 2"
  "(((x::u16) AND 0xFF) AND 0x01 \<noteq> 0) = bit x 0"
  using and_exp_eq_0_iff_not_bit[of "x AND 0xFF" 7] and_exp_eq_0_iff_not_bit[of "x AND 0xFF" 6]
    and_exp_eq_0_iff_not_bit[of "x AND 0xFF" 4] and_exp_eq_0_iff_not_bit[of "x AND 0xFF" 2]
    and_exp_eq_0_iff_not_bit[of "x AND 0xFF" 0]
  by (simp_all add: bit_and_ff_u16)

lemma join_split_u16:
  "push_bit 8 (ucast (ucast (drop_bit 8 v) :: u8)) OR ucast (ucast v :: u8) = (v::u16)"
  by (rule bit_word_eqI) (auto simp: bit_simps)

lemma high_of_join:
  assumes "f < (256::u16)"
  shows "(ucast (drop_bit 8 (push_bit 8 (ucast (a::u8)) OR f)) :: u8) = a"
proof -
  have tb: "f AND mask 8 = f"
    using assms less_mask_eq[of f 8] by simp
  have b: "m < 8" if "bit f m" for m
  proof -
    from that tb have "bit (f AND mask 8) m" by simp
    then show ?thesis by (simp add: bit_simps)
  qed
  show ?thesis
    by (rule bit_word_eqI) (auto simp: bit_simps dest: b)
qed

lemma int_and_16: "0 \<le> x \<Longrightarrow> x < 32 \<Longrightarrow> (x AND 16 \<noteq> 0) = (16 \<le> (x::int))"
proof -
  assume a: "0 \<le> x" "x < 32"
  have "(x AND 2 ^ 4 = 0) = (\<not> bit x 4)" by (rule and_exp_eq_0_iff_not_bit)
  moreover have "bit x 4 = odd (x div 16)" by (simp add: bit_iff_odd)
  moreover have "odd (x div 16) = (16 \<le> x)" using a by presburger
  ultimately show ?thesis by simp
qed

lemma uint_low_nibble_bounds: "0 \<le> uint ((a::u8) AND 15) \<and> uint (a AND 15) < 16"
proof -
  have "a AND 15 \<le> 15" by (rule word_and_le1)
  then have "uint (a AND 15) \<le> uint (15::u8)" by (simp only: word_le_def)
  then show ?thesis by simp
qed

lemma and_128_iff_bit7: "((v::u8) AND 128 \<noteq> 0) = bit v 7"
  using and_exp_eq_0_iff_not_bit[of v 7] by simp

subsection \<open>The parity loop counts the set bits\<close>

lemma drop_bit_and_1_iff: "(drop_bit i (v::u8) AND 1 \<noteq> 0) = bit v i"
  by (simp add: and_one_eq bit_iff_odd_drop_bit odd_iff_mod_2_eq_one)

lemma parityLoop_count:
  "parityLoop val i c = c + card {j. i \<le> j \<and> j < 8 \<and> bit val j}"
proof (induction val i c rule: parityLoop.induct)
  case (1 val i c)
  show ?case
  proof (cases "i < 8")
    case True
    have split: "{j. i \<le> j \<and> j < 8 \<and> bit val j} =
        (if bit val i then {i} else {}) \<union> {j. i + 1 \<le> j \<and> j < 8 \<and> bit val j}"
      using True by (auto simp: le_less Suc_le_eq)
    show ?thesis
      using "1.IH"[OF True] True
      by (subst parityLoop.simps)
         (simp add: drop_bit_and_1_iff split del: if_split, simp add: split)
  next
    case False
    then have "{j. i \<le> j \<and> j < 8 \<and> bit val j} = {}" by auto
    with False show ?thesis by (subst parityLoop.simps) simp
  qed
qed

lemma parityLoop_card: "parityLoop val 0 0 = card {j. bit val j}"
proof -
  have "{j. 0 \<le> j \<and> j < 8 \<and> bit val j} = {j. bit val j}"
    by (auto dest: bit_imp_le_length)
  then show ?thesis by (simp add: parityLoop_count)
qed

lemma updateZSPFlags_flags:
  "flags (updateZSPFlags v s) =
     (flags s)\<lparr>S := bit v 7, Z := (v = 0), P := even (card {j. bit v j})\<rparr>"
  by (simp add: updateZSPFlags_def Let_def and_128_iff_bit7 parityLoop_card
      even_iff_mod_2_eq_zero)

subsection \<open>What the ALU helpers leave alone\<close>

lemma add8bit_result: "fst (add8bit a b False s) = a + b"
  by (simp add: add8bit_def Let_def word_of_int_and_255)

lemma add8bit_frame:
  "registers (snd (add8bit a b c s)) = registers s"
  "memory (snd (add8bit a b c s)) = memory s"
  "ioPorts (snd (add8bit a b c s)) = ioPorts s"
  "halted (snd (add8bit a b c s)) = halted s"
  by (simp_all add: add8bit_def Let_def updateZSPFlags_def set_defs)

lemma sub8bit_frame:
  "registers (snd (sub8bit a b c s)) = registers s"
  "memory (snd (sub8bit a b c s)) = memory s"
  "ioPorts (snd (sub8bit a b c s)) = ioPorts s"
  "halted (snd (sub8bit a b c s)) = halted s"
  by (simp_all add: sub8bit_def Let_def updateZSPFlags_def set_defs)

text \<open>Both helpers assign all five flags, so the flags they leave do not depend on the
  state they start from.\<close>

lemma add8bit_flags_indep: "flags (snd (add8bit a b c s)) = flags (snd (add8bit a b c t))"
  by (simp add: add8bit_def Let_def updateZSPFlags_def set_defs Flags.equality)

lemma sub8bit_flags_indep: "flags (snd (sub8bit a b c s)) = flags (snd (sub8bit a b c t))"
  by (simp add: sub8bit_def Let_def updateZSPFlags_def set_defs Flags.equality)

subsection \<open>Fetch and dispatch\<close>

lemma step_running:
  "\<not> halted s \<Longrightarrow> step s =
     executeInstruction (readByte s (PC (registers s))) (setPC (PC (registers s) + 1) s)"
  by (simp add: step_def Let_def)

lemma step_at_reset:
  "step (writeByte 0 opcode new_CPU8085) =
     executeInstruction opcode (setPC 1 (writeByte 0 opcode new_CPU8085))"
  by (simp add: step_def Let_def init_defs)

lemma readByte_setPC [simp]: "readByte (setPC x s) a = readByte s a"
  by (simp add: readByte_def setPC_def)

lemma readWord_setPC [simp]: "readWord (setPC x s) a = readWord s a"
  by (simp add: readWord_def)

lemma getHL_setPC [simp]: "getHL (setPC x s) = getHL s"
  by (simp add: getHL_def setPC_def)

lemma fields_setPC [simp]:
  "registers (setPC x s) = (registers s)\<lparr>PC := x\<rparr>"
  "flags (setPC x s) = flags s"
  "memory (setPC x s) = memory s"
  "ioPorts (setPC x s) = ioPorts s"
  "halted (setPC x s) = halted s"
  by (simp_all add: setPC_def)

lemma setPC_setPC [simp]: "setPC x (setPC y s) = setPC x s"
  by (simp add: setPC_def)

lemma setPC_pushWord_setPC: "setPC x (pushWord v (setPC y s)) = setPC x (pushWord v s)"
  by (simp add: pushWord_def writeByte_def setSP_def setPC_def Let_def)

lemma popWord_setPC:
  "fst (popWord (setPC y s)) = fst (popWord s)"
  "setPC x (snd (popWord (setPC y s))) = setPC x (snd (popWord s))"
  by (simp_all add: popWord_def readByte_def setSP_def setPC_def Let_def)

lemma popWord_pushWord: "fst (popWord (pushWord v s)) = v"
  by (simp add: popWord_def pushWord_def readByte_def writeByte_def setSP_def Let_def
      join_split_u16)

text \<open>The branches of the \<open>switch\<close> that the properties below execute.\<close>

lemma exec_nop: "executeInstruction 0x00 s = s"
  by (simp add: executeInstruction_def)

lemma exec_halt: "executeInstruction 0x76 s = s\<lparr>halted := True\<rparr>"
  by (simp add: executeInstruction_def)

lemma exec_daa: "executeInstruction 0x27 s = DAA s"
  by (simp add: executeInstruction_def)

lemma exec_compare:
  "executeInstruction 0xB8 s = snd (sub8bit (A (registers s)) (B (registers s)) False s)"
  "executeInstruction 0xBE s = snd (sub8bit (A (registers s)) (readByte s (getHL s)) False s)"
  "executeInstruction 0xBF s = snd (sub8bit (A (registers s)) (A (registers s)) False s)"
  "executeInstruction 0xFE s =
    (let tempVal = readByte s (PC (registers s));
         (r, s1) = sub8bit (A (registers s)) tempVal False s
     in setPC ((PC (registers s1) + 1) AND 0xFFFF) s1)"
  by (simp_all add: executeInstruction_def)

lemma exec_push_pop_psw:
  "executeInstruction 0xF5 s = pushWord (getPSW s) s"
  "executeInstruction 0xF1 s = (let (w, s1) = popWord s in setPSW w s1)"
  by (simp_all add: executeInstruction_def)

lemma inr_flags:
  "flags (executeInstruction 0x04 t) = (flags (snd (add8bit (B (registers t)) 1 False t)))\<lparr>CY := CY (flags t)\<rparr>"
  "flags (executeInstruction 0x0C t) = (flags (snd (add8bit (C (registers t)) 1 False t)))\<lparr>CY := CY (flags t)\<rparr>"
  "flags (executeInstruction 0x14 t) = (flags (snd (add8bit (D (registers t)) 1 False t)))\<lparr>CY := CY (flags t)\<rparr>"
  "flags (executeInstruction 0x1C t) = (flags (snd (add8bit (E (registers t)) 1 False t)))\<lparr>CY := CY (flags t)\<rparr>"
  "flags (executeInstruction 0x24 t) = (flags (snd (add8bit (H (registers t)) 1 False t)))\<lparr>CY := CY (flags t)\<rparr>"
  "flags (executeInstruction 0x2C t) = (flags (snd (add8bit (L (registers t)) 1 False t)))\<lparr>CY := CY (flags t)\<rparr>"
  "flags (executeInstruction 0x34 t) = (flags (snd (add8bit (readByte t (getHL t)) 1 False t)))\<lparr>CY := CY (flags t)\<rparr>"
  "flags (executeInstruction 0x3C t) = (flags (snd (add8bit (A (registers t)) 1 False t)))\<lparr>CY := CY (flags t)\<rparr>"
  by (simp_all add: executeInstruction_def Let_def split_def set_defs writeByte_def)

lemma dcr_flags:
  "flags (executeInstruction 0x05 t) = (flags (snd (sub8bit (B (registers t)) 1 False t)))\<lparr>CY := CY (flags t)\<rparr>"
  "flags (executeInstruction 0x0D t) = (flags (snd (sub8bit (C (registers t)) 1 False t)))\<lparr>CY := CY (flags t)\<rparr>"
  "flags (executeInstruction 0x15 t) = (flags (snd (sub8bit (D (registers t)) 1 False t)))\<lparr>CY := CY (flags t)\<rparr>"
  "flags (executeInstruction 0x1D t) = (flags (snd (sub8bit (E (registers t)) 1 False t)))\<lparr>CY := CY (flags t)\<rparr>"
  "flags (executeInstruction 0x25 t) = (flags (snd (sub8bit (H (registers t)) 1 False t)))\<lparr>CY := CY (flags t)\<rparr>"
  "flags (executeInstruction 0x2D t) = (flags (snd (sub8bit (L (registers t)) 1 False t)))\<lparr>CY := CY (flags t)\<rparr>"
  "flags (executeInstruction 0x35 t) = (flags (snd (sub8bit (readByte t (getHL t)) 1 False t)))\<lparr>CY := CY (flags t)\<rparr>"
  "flags (executeInstruction 0x3D t) = (flags (snd (sub8bit (A (registers t)) 1 False t)))\<lparr>CY := CY (flags t)\<rparr>"
  by (simp_all add: executeInstruction_def Let_def split_def set_defs writeByte_def)

lemma exec_ccond:
  "executeInstruction 0xC4 t = (if \<not> Z (flags t) then setPC (readWord t (PC (registers t))) (pushWord (PC (registers t) + 2) t) else setPC (PC (registers t) + 2) t)"
  "executeInstruction 0xCC t = (if Z (flags t) then setPC (readWord t (PC (registers t))) (pushWord (PC (registers t) + 2) t) else setPC (PC (registers t) + 2) t)"
  "executeInstruction 0xD4 t = (if \<not> CY (flags t) then setPC (readWord t (PC (registers t))) (pushWord (PC (registers t) + 2) t) else setPC (PC (registers t) + 2) t)"
  "executeInstruction 0xDC t = (if CY (flags t) then setPC (readWord t (PC (registers t))) (pushWord (PC (registers t) + 2) t) else setPC (PC (registers t) + 2) t)"
  by (simp_all add: executeInstruction_def Let_def)

lemma exec_rcond:
  "executeInstruction 0xC0 t = (if \<not> Z (flags t) then setPC (fst (popWord t)) (snd (popWord t)) else t)"
  "executeInstruction 0xC8 t = (if Z (flags t) then setPC (fst (popWord t)) (snd (popWord t)) else t)"
  "executeInstruction 0xD0 t = (if \<not> CY (flags t) then setPC (fst (popWord t)) (snd (popWord t)) else t)"
  "executeInstruction 0xD8 t = (if CY (flags t) then setPC (fst (popWord t)) (snd (popWord t)) else t)"
  by (simp_all add: executeInstruction_def Let_def split_def)

text \<open>The 37 byte values that have no \<open>case\<close> label reach the \<open>default\<close> branch.\<close>

lemma default_case:
  "opcode \<in> {0x08, 0x10, 0x18, 0x28, 0x38, 0xA2, 0xA3, 0xA4, 0xA5, 0xA9, 0xAA, 0xAB, 0xAC, 0xAD,
              0xB1, 0xB2, 0xB3, 0xB4, 0xB5, 0xB9, 0xBA, 0xBB, 0xBC, 0xBD, 0xCB, 0xD9, 0xDD,
              0xE0, 0xE4, 0xE8, 0xEC, 0xED, 0xF0, 0xF4, 0xF8, 0xFC, 0xFD}
   \<Longrightarrow> executeInstruction opcode s = s\<lparr>halted := True\<rparr>"
  by (elim insertE emptyE; simp add: executeInstruction_def)

subsection \<open>The status word\<close>

lemma getPSW_bits:
  "bit (getPSW s) 7 = S (flags s)"
  "bit (getPSW s) 6 = Z (flags s)"
  "bit (getPSW s) 5 = False"
  "bit (getPSW s) 4 = AC (flags s)"
  "bit (getPSW s) 3 = False"
  "bit (getPSW s) 2 = P (flags s)"
  "bit (getPSW s) (Suc 0) = True"
  "bit (getPSW s) 0 = CY (flags s)"
  by (simp_all add: getPSW_def Let_def bit_simps)

lemma getPSW_high: "(ucast (drop_bit 8 (getPSW s)) :: u8) = A (registers s)"
  unfolding getPSW_def Let_def
  by (rule high_of_join) simp

lemma setPSW_getPSW:
  "A (registers (setPSW (getPSW s) t)) = A (registers s)"
  "flags (setPSW (getPSW s) t) = flags s"
  by (simp_all add: setPSW_def Let_def set_defs low_byte_tests getPSW_bits getPSW_high)

section \<open>Properties\<close>

text \<open>
  C1. For all 8-bit values \<open>a\<close> and \<open>b\<close>, \<open>add8bit a b false\<close> returns \<open>(a + b) & 0xFF\<close>;
  Carry is set iff \<open>a + b > 255\<close>; Auxiliary-Carry is set iff the sum of the two low
  nibbles reaches 16; Zero is set iff the masked result is 0; Sign is set iff bit 7 of the
  masked result is set; Parity is set iff the masked result has an even number of set bits.
\<close>

theorem add8bit_no_carry_in:
  "uint (fst (add8bit a b False s)) = (uint a + uint b) AND 0xFF
   \<and> CY (flags (snd (add8bit a b False s))) = (uint a + uint b > 255)
   \<and> AC (flags (snd (add8bit a b False s))) = (uint (a AND 0x0F) + uint (b AND 0x0F) \<ge> 16)
   \<and> Z (flags (snd (add8bit a b False s))) = (fst (add8bit a b False s) = 0)
   \<and> S (flags (snd (add8bit a b False s))) = bit (fst (add8bit a b False s)) 7
   \<and> P (flags (snd (add8bit a b False s))) = even (card {i. bit (fst (add8bit a b False s)) i})"
proof -
  have r: "fst (add8bit a b False s) = a + b" by (rule add8bit_result)
  have u: "uint (a + b) = (uint a + uint b) AND 0xFF"
    by (simp add: int_and_255 uint_word_ariths)
  have ac: "((uint (a AND 0x0F) + uint (b AND 0x0F)) AND 0x10 \<noteq> 0)
      = (uint (a AND 0x0F) + uint (b AND 0x0F) \<ge> 16)"
    using uint_low_nibble_bounds[of a] uint_low_nibble_bounds[of b]
    by (intro int_and_16) auto
  have f: "flags (snd (add8bit a b False s)) =
      (flags s)\<lparr>CY := (uint a + uint b > 255),
                AC := (uint (a AND 0x0F) + uint (b AND 0x0F) \<ge> 16),
                S := bit (a + b) 7, Z := (a + b = 0), P := even (card {j. bit (a + b) j})\<rparr>"
    using ac
    by (simp add: add8bit_def Let_def updateZSPFlags_flags setCY_def setAC_def
        word_of_int_and_255)
  show ?thesis unfolding r f using u by simp
qed

text \<open>
  C2. For every state that is not halted and every increment or decrement opcode
  (INR B, C, D, E, H, L, M, A: 0x04, 0x0C, 0x14, 0x1C, 0x24, 0x2C, 0x34, 0x3C; DCR:
  0x05, 0x0D, 0x15, 0x1D, 0x25, 0x2D, 0x35, 0x3D), \<open>step\<close> leaves Carry as it was, and
  Sign, Zero, Auxiliary-Carry and Parity are what \<open>add8bit x 1 false\<close> (for DCR,
  \<open>sub8bit x 1 false\<close>) leaves for the operand value \<open>x\<close>.
\<close>

theorem inr_dcr_leave_carry:
  assumes "\<not> halted s"
    and "readByte s (PC (registers s)) = opcode"
    and "(opcode, x) \<in>
            {(0x04, B (registers s)), (0x0C, C (registers s)), (0x14, D (registers s)),
             (0x1C, E (registers s)), (0x24, H (registers s)), (0x2C, L (registers s)),
             (0x34, readByte s (getHL s)), (0x3C, A (registers s))}
          \<and> h = add8bit x 1 False s
        \<or> (opcode, x) \<in>
            {(0x05, B (registers s)), (0x0D, C (registers s)), (0x15, D (registers s)),
             (0x1D, E (registers s)), (0x25, H (registers s)), (0x2D, L (registers s)),
             (0x35, readByte s (getHL s)), (0x3D, A (registers s))}
          \<and> h = sub8bit x 1 False s"
  shows "CY (flags (step s)) = CY (flags s)
       \<and> S (flags (step s)) = S (flags (snd h))
       \<and> Z (flags (step s)) = Z (flags (snd h))
       \<and> AC (flags (step s)) = AC (flags (snd h))
       \<and> P (flags (step s)) = P (flags (snd h))"
proof -
  let ?s1 = "setPC (PC (registers s) + 1) s"
  have st: "step s = executeInstruction opcode ?s1"
    using assms(1,2) by (simp add: step_running)
  have a: "flags (snd (add8bit v 1 False ?s1)) = flags (snd (add8bit v 1 False s))" for v
    by (rule add8bit_flags_indep)
  have b: "flags (snd (sub8bit v 1 False ?s1)) = flags (snd (sub8bit v 1 False s))" for v
    by (rule sub8bit_flags_indep)
  have "flags (step s) = (flags (snd h))\<lparr>CY := CY (flags s)\<rparr>"
    using assms(3) unfolding st
    by (elim disjE conjE insertE emptyE; simp add: inr_flags dcr_flags a b)
  then show ?thesis by simp
qed

text \<open>Witness: INR A (0x3C) at address 0 with the accumulator at 0xFF and Carry set. The
  accumulator wraps to 0, Zero and Auxiliary-Carry are set, Carry stays set.\<close>

theorem inr_dcr_leave_carry_witness:
  "\<not> halted (setCY True (setA 0xFF (writeByte 0 0x3C new_CPU8085)))
   \<and> CY (flags (setCY True (setA 0xFF (writeByte 0 0x3C new_CPU8085))))
   \<and> flags (step (setCY True (setA 0xFF (writeByte 0 0x3C new_CPU8085))))
       = \<lparr>S = False, Z = True, AC = True, P = True, CY = True\<rparr>"
proof -
  let ?s = "setCY True (setA 0xFF (writeByte 0 0x3C new_CPU8085))"
  let ?h = "add8bit 0xFF 1 False ?s"
  have h1: "\<not> halted ?s" by (simp add: init_defs)
  have h2: "readByte ?s (PC (registers ?s)) = 0x3C" by (simp add: init_defs)
  have h3: "(0x3C, 0xFF) \<in>
            {(0x04, B (registers ?s)), (0x0C, C (registers ?s)), (0x14, D (registers ?s)),
             (0x1C, E (registers ?s)), (0x24, H (registers ?s)), (0x2C, L (registers ?s)),
             (0x34, readByte ?s (getHL ?s)), (0x3C, A (registers ?s))}
          \<and> ?h = add8bit 0xFF 1 False ?s
        \<or> (0x3C, 0xFF) \<in>
            {(0x05, B (registers ?s)), (0x0D, C (registers ?s)), (0x15, D (registers ?s)),
             (0x1D, E (registers ?s)), (0x25, H (registers ?s)), (0x2D, L (registers ?s)),
             (0x35, readByte ?s (getHL ?s)), (0x3D, A (registers ?s))}
          \<and> ?h = sub8bit 0xFF 1 False ?s"
    by (simp add: init_defs)
  have c: "CY (flags ?s)" by (simp add: init_defs)
  have p: "parityLoop (0::u8) 0 0 = 0" by (simp add: parityLoop.simps)
  have f: "flags (snd ?h) = \<lparr>S = False, Z = True, AC = True, P = True, CY = True\<rparr>"
    by (simp add: add8bit_def Let_def updateZSPFlags_def p init_defs)
  from inr_dcr_leave_carry[OF h1 h2 h3] h1 c f show ?thesis
    by (simp add: Flags.equality)
qed

text \<open>
  C3. The opcode bytes that the application's instruction table lists as NOP besides 0x00
  (0x08, 0x18, 0x28, 0x38, 0xCB, 0xD9, 0xDD, 0xED, 0xFD) should execute and do nothing.
  \<open>executeInstruction\<close> has no \<open>case\<close> label for any of them: each reaches the \<open>default\<close>
  branch and sets halted. Evaluated on a freshly constructed processor with the opcode
  stored at address 0; the NOP byte 0x00 at the same place does not halt.
\<close>

theorem nop_alias_opcodes_fail_stop:
  "halted (step (writeByte 0 0x08 new_CPU8085))
   \<and> halted (step (writeByte 0 0x18 new_CPU8085))
   \<and> halted (step (writeByte 0 0x28 new_CPU8085))
   \<and> halted (step (writeByte 0 0x38 new_CPU8085))
   \<and> halted (step (writeByte 0 0xCB new_CPU8085))
   \<and> halted (step (writeByte 0 0xD9 new_CPU8085))
   \<and> halted (step (writeByte 0 0xDD new_CPU8085))
   \<and> halted (step (writeByte 0 0xED new_CPU8085))
   \<and> halted (step (writeByte 0 0xFD new_CPU8085))
   \<and> halted (step (writeByte 0 0x00 new_CPU8085)) = False"
  unfolding step_at_reset
  by (simp add: default_case exec_nop setPC_def new_CPU8085_def reset_def writeByte_def)

text \<open>
  C4. Conditional calls and returns should exist for both polarities of Zero, Carry,
  Parity and Sign. The \<open>switch\<close> has the Zero and Carry ones only (CNZ, CZ, CNC, CC, RNZ,
  RZ, RNC, RC). The Parity and Sign ones (CPE 0xEC, CPO 0xE4, RPE 0xE8, RPO 0xE0, CM 0xFC,
  CP 0xF4, RM 0xF8, RP 0xF0) reach the \<open>default\<close> branch: on a freshly constructed
  processor, where Parity is set and Sign is clear, each of them halts with the program
  counter just past the opcode byte and the stack pointer untouched, whether its
  condition holds or not.
\<close>

theorem parity_sign_call_return_fail_stop:
  "step (writeByte 0 0xEC new_CPU8085) = (setPC 1 (writeByte 0 0xEC new_CPU8085))\<lparr>halted := True\<rparr>
   \<and> step (writeByte 0 0xE4 new_CPU8085) = (setPC 1 (writeByte 0 0xE4 new_CPU8085))\<lparr>halted := True\<rparr>
   \<and> step (writeByte 0 0xE8 new_CPU8085) = (setPC 1 (writeByte 0 0xE8 new_CPU8085))\<lparr>halted := True\<rparr>
   \<and> step (writeByte 0 0xE0 new_CPU8085) = (setPC 1 (writeByte 0 0xE0 new_CPU8085))\<lparr>halted := True\<rparr>
   \<and> step (writeByte 0 0xFC new_CPU8085) = (setPC 1 (writeByte 0 0xFC new_CPU8085))\<lparr>halted := True\<rparr>
   \<and> step (writeByte 0 0xF4 new_CPU8085) = (setPC 1 (writeByte 0 0xF4 new_CPU8085))\<lparr>halted := True\<rparr>
   \<and> step (writeByte 0 0xF8 new_CPU8085) = (setPC 1 (writeByte 0 0xF8 new_CPU8085))\<lparr>halted := True\<rparr>
   \<and> step (writeByte 0 0xF0 new_CPU8085) = (setPC 1 (writeByte 0 0xF0 new_CPU8085))\<lparr>halted := True\<rparr>
   \<and> P (flags new_CPU8085) = True \<and> S (flags new_CPU8085) = False"
  unfolding step_at_reset
  by (simp add: default_case new_CPU8085_def reset_def)

text \<open>The Zero and Carry forms do what C4 says: the call is taken exactly when its
  condition holds, pushing the address after the three-byte instruction and jumping to
  the operand; not taken, only the program counter moves, past the operand. The return
  pops the program counter exactly when its condition holds; not taken, only the program
  counter moves, past the opcode.\<close>

lemma conditional_call_zero_carry:
  assumes "\<not> halted s"
    and "readByte s (PC (registers s)) = opcode"
    and "(opcode, condition) \<in>
           {(0xCC, Z (flags s)), (0xC4, \<not> Z (flags s)),
            (0xDC, CY (flags s)), (0xD4, \<not> CY (flags s))}"
  shows "step s =
     (if condition
      then setPC (readWord s (PC (registers s) + 1)) (pushWord (PC (registers s) + 3) s)
      else setPC (PC (registers s) + 3) s)"
proof -
  have three: "PC (registers s) + 1 + 2 = PC (registers s) + 3" by simp
  show ?thesis
    using assms(3) unfolding step_running[OF assms(1)] assms(2)
    by (elim insertE emptyE; simp add: exec_ccond setPC_pushWord_setPC three)
qed

lemma conditional_return_zero_carry:
  assumes "\<not> halted s"
    and "readByte s (PC (registers s)) = opcode"
    and "(opcode, condition) \<in>
           {(0xC8, Z (flags s)), (0xC0, \<not> Z (flags s)),
            (0xD8, CY (flags s)), (0xD0, \<not> CY (flags s))}"
  shows "step s =
     (if condition
      then setPC (fst (popWord s)) (snd (popWord s))
      else setPC (PC (registers s) + 1) s)"
  using assms(3) unfolding step_running[OF assms(1)] assms(2)
  by (elim insertE emptyE; simp add: exec_rcond popWord_setPC)

text \<open>
  C5. For every 16-bit value \<open>v\<close> and every stack pointer \<open>SP0 \<ge> 2\<close> (so that neither
  the push nor the pop wraps), \<open>pushWord v\<close> followed by \<open>popWord\<close> returns \<open>v\<close> and
  restores the stack pointer to \<open>SP0\<close>; right after the push, memory at \<open>SP0 - 1\<close> holds
  the high byte of \<open>v\<close> and memory at \<open>SP0 - 2\<close> the low byte.
\<close>

theorem pushWord_popWord_roundtrip:
  assumes "2 \<le> unat (SP (registers s))"
  shows "fst (popWord (pushWord v s)) = v
       \<and> SP (registers (snd (popWord (pushWord v s)))) = SP (registers s)
       \<and> unat (memory (pushWord v s) (word_of_nat (unat (SP (registers s)) - 1)))
           = unat v div 256
       \<and> unat (memory (pushWord v s) (word_of_nat (unat (SP (registers s)) - 2)))
           = unat v mod 256"
proof -
  let ?sp = "SP (registers s)"
  have a1: "word_of_nat (unat ?sp - 1) = ?sp - 1"
    using assms by (simp add: of_nat_diff)
  have a2: "word_of_nat (unat ?sp - 2) = ?sp - 1 - 1"
    using assms by (simp add: of_nat_diff)
  have "unat v < 65536" using unsigned_less[of v] by simp
  then have "unat v div 256 < 256" by simp
  then have hi: "unat (ucast (drop_bit 8 v) :: u8) = unat v div 256"
    by (simp add: unsigned_ucast_eq drop_bit_eq_div take_bit_eq_mod unat_div)
  have lo: "unat (ucast v :: u8) = unat v mod 256"
    by (simp add: unsigned_ucast_eq take_bit_eq_mod)
  have m1: "memory (pushWord v s) (?sp - 1) = ucast (drop_bit 8 v)"
    by (simp add: pushWord_def writeByte_def setSP_def Let_def)
  have m2: "memory (pushWord v s) (?sp - 1 - 1) = ucast v"
    by (simp add: pushWord_def writeByte_def setSP_def Let_def)
  have sp: "SP (registers (pushWord v s)) = ?sp - 1 - 1"
    by (simp add: pushWord_def writeByte_def setSP_def Let_def)
  have p: "popWord (pushWord v s) =
      (push_bit 8 (ucast (memory (pushWord v s) (?sp - 1)))
         OR ucast (memory (pushWord v s) (?sp - 1 - 1)),
       setSP ?sp (pushWord v s))"
    by (simp add: popWord_def readByte_def setSP_def Let_def sp)
  show ?thesis
    unfolding a1 a2 p m1 m2 using hi lo by (simp add: join_split_u16 setSP_def)
qed

text \<open>Witness: push 0x1234 with the stack pointer at 0x2000, then pop.\<close>

theorem pushWord_popWord_roundtrip_witness:
  "2 \<le> unat (SP (registers (setSP 0x2000 new_CPU8085)))
   \<and> fst (popWord (pushWord 0x1234 (setSP 0x2000 new_CPU8085))) = 0x1234
   \<and> SP (registers (snd (popWord (pushWord 0x1234 (setSP 0x2000 new_CPU8085))))) = 0x2000
   \<and> memory (pushWord 0x1234 (setSP 0x2000 new_CPU8085)) 0x1FFF = 0x12
   \<and> memory (pushWord 0x1234 (setSP 0x2000 new_CPU8085)) 0x1FFE = 0x34"
proof -
  let ?s = "setSP 0x2000 new_CPU8085"
  have h: "2 \<le> unat (SP (registers ?s))"
    by (simp add: init_defs)
  have sp: "SP (registers ?s) = 0x2000"
    by (simp add: init_defs)
  have m1: "memory (pushWord 0x1234 ?s) 0x1FFF = 0x12"
    by (simp add: pushWord_def Let_def init_defs)
  have m2: "memory (pushWord 0x1234 ?s) 0x1FFE = 0x34"
    by (simp add: pushWord_def Let_def init_defs)
  from pushWord_popWord_roundtrip[OF h, of "0x1234"] h sp m1 m2
  show ?thesis by simp
qed

text \<open>
  C6. After \<open>reset\<close>, whatever the state before: A, B, C, D, E, H and L are 0, the stack
  pointer is 0xFFFE, the program counter is 0x0000, the flags are Sign = false,
  Zero = true, Auxiliary-Carry = false, Parity = true, Carry = false, halted is false,
  and memory and the I/O ports are what they were before the call.
\<close>

theorem reset_postcondition:
  "registers (reset s) =
     \<lparr>A = 0, B = 0, C = 0, D = 0, E = 0, H = 0, L = 0, SP = 0xFFFE, PC = 0x0000\<rparr>
   \<and> flags (reset s) = \<lparr>S = False, Z = True, AC = False, P = True, CY = False\<rparr>
   \<and> halted (reset s) = False
   \<and> memory (reset s) = memory s
   \<and> ioPorts (reset s) = ioPorts s"
  by (simp add: reset_def)

text \<open>
  C7. In every state whose halted flag is set, \<open>step\<close> changes nothing: registers
  (the program counter among them), flags, memory, I/O ports and the halted flag are what
  they were.
\<close>

theorem step_halted_noop: "halted s \<Longrightarrow> step s = s"
  by (simp add: step_def)

text \<open>Witness: HLT (0x76) at address 0 halts a freshly constructed processor; the next
  \<open>step\<close> returns the same state.\<close>

theorem step_halted_noop_witness:
  "halted (step (writeByte 0 0x76 new_CPU8085))
   \<and> step (step (writeByte 0 0x76 new_CPU8085)) = step (writeByte 0 0x76 new_CPU8085)"
proof -
  have h: "halted (step (writeByte 0 0x76 new_CPU8085))"
    by (simp add: step_def Let_def exec_halt init_defs)
  from h step_halted_noop[OF h] show ?thesis by (rule conjI)
qed

text \<open>
  C8. The low byte of \<open>getPSW\<close> has bit 7 = Sign, bit 6 = Zero, bit 5 = 0,
  bit 4 = Auxiliary-Carry, bit 3 = 0, bit 2 = Parity, bit 1 = 1, bit 0 = Carry; its high
  byte is the accumulator; \<open>setPSW\<close> of that word restores the accumulator and the five
  flags, into whatever state it is applied; and PUSH PSW (0xF5) followed by POP PSW (0xF1)
  leaves accumulator and flags as they were.
\<close>

theorem PSW_layout_and_roundtrip:
  "bit (ucast (getPSW s) :: u8) 7 = S (flags s)
   \<and> bit (ucast (getPSW s) :: u8) 6 = Z (flags s)
   \<and> bit (ucast (getPSW s) :: u8) 5 = False
   \<and> bit (ucast (getPSW s) :: u8) 4 = AC (flags s)
   \<and> bit (ucast (getPSW s) :: u8) 3 = False
   \<and> bit (ucast (getPSW s) :: u8) 2 = P (flags s)
   \<and> bit (ucast (getPSW s) :: u8) 1 = True
   \<and> bit (ucast (getPSW s) :: u8) 0 = CY (flags s)
   \<and> (ucast (drop_bit 8 (getPSW s)) :: u8) = A (registers s)
   \<and> A (registers (setPSW (getPSW s) t)) = A (registers s)
   \<and> flags (setPSW (getPSW s) t) = flags s
   \<and> A (registers (executeInstruction 0xF1 (executeInstruction 0xF5 s))) = A (registers s)
   \<and> flags (executeInstruction 0xF1 (executeInstruction 0xF5 s)) = flags s"
proof -
  have pp: "executeInstruction 0xF1 (executeInstruction 0xF5 s) =
      setPSW (getPSW s) (snd (popWord (pushWord (getPSW s) s)))"
    using popWord_pushWord[of "getPSW s" s]
    by (simp add: exec_push_pop_psw split_def)
  show ?thesis
    unfolding pp by (simp add: bit_simps getPSW_bits getPSW_high setPSW_getPSW)
qed

text \<open>
  C9. In every state that is not halted, has DAA (0x27) at the program counter and has
  Carry set, Carry is still set after \<open>step\<close>.
\<close>

theorem DAA_never_clears_carry:
  assumes "\<not> halted s" and "readByte s (PC (registers s)) = 0x27" and "CY (flags s)"
  shows "CY (flags (step s))"
  using assms by (simp add: step_running exec_daa DAA_def Let_def split_def set_defs)

text \<open>Witness: DAA at address 0 of a freshly constructed processor with Carry set.\<close>

theorem DAA_never_clears_carry_witness:
  "\<not> halted (setCY True (writeByte 0 0x27 new_CPU8085))
   \<and> readByte (setCY True (writeByte 0 0x27 new_CPU8085))
        (PC (registers (setCY True (writeByte 0 0x27 new_CPU8085)))) = 0x27
   \<and> CY (flags (setCY True (writeByte 0 0x27 new_CPU8085)))
   \<and> CY (flags (step (setCY True (writeByte 0 0x27 new_CPU8085))))"
proof -
  let ?s = "setCY True (writeByte 0 0x27 new_CPU8085)"
  have h1: "\<not> halted ?s" by (simp add: init_defs)
  have h2: "readByte ?s (PC (registers ?s)) = 0x27" by (simp add: init_defs)
  have h3: "CY (flags ?s)" by (simp add: init_defs)
  from h1 h2 h3 DAA_never_clears_carry[OF h1 h2 h3] show ?thesis by simp
qed

text \<open>
  C10. In every state that is not halted, an implemented compare opcode (CMP B 0xB8,
  CMP M 0xBE, CMP A 0xBF, CPI 0xFE) sets the five flags as \<open>sub8bit A operand false\<close>
  does and changes nothing else but the program counter, which moves past the
  instruction (one byte; two for CPI, whose operand is the byte after the opcode).
\<close>

theorem compare_sets_flags_only:
  assumes "\<not> halted s"
    and "readByte s (PC (registers s)) = opcode"
    and "(opcode, operand, len) \<in>
           {(0xB8, B (registers s), 1),
            (0xBE, readByte s (getHL s), 1),
            (0xBF, A (registers s), 1),
            (0xFE, readByte s (PC (registers s) + 1), 2)}"
  shows "flags (step s) = flags (snd (sub8bit (A (registers s)) operand False s))
       \<and> registers (step s) = (registers s)\<lparr>PC := PC (registers s) + len\<rparr>
       \<and> memory (step s) = memory s
       \<and> ioPorts (step s) = ioPorts s
       \<and> halted (step s) = halted s"
proof -
  let ?s1 = "setPC (PC (registers s) + 1) s"
  have st: "step s = executeInstruction opcode ?s1"
    using assms(1,2) by (simp add: step_running)
  have fl: "flags (snd (sub8bit a b False ?s1)) = flags (snd (sub8bit a b False s))" for a b
    by (rule sub8bit_flags_indep)
  from assms(3) consider
      (B8) "opcode = 0xB8" "operand = B (registers s)" "len = 1"
    | (BE) "opcode = 0xBE" "operand = readByte s (getHL s)" "len = 1"
    | (BF) "opcode = 0xBF" "operand = A (registers s)" "len = 1"
    | (FE) "opcode = 0xFE" "operand = readByte s (PC (registers s) + 1)" "len = 2"
    by auto
  then show ?thesis
  proof cases
    case B8
    show ?thesis unfolding st B8 exec_compare
      by (simp add: sub8bit_frame fl)
  next
    case BE
    show ?thesis unfolding st BE exec_compare
      by (simp add: sub8bit_frame fl)
  next
    case BF
    show ?thesis unfolding st BF exec_compare
      by (simp add: sub8bit_frame fl)
  next
    case FE
    show ?thesis unfolding st FE exec_compare
      by (simp add: Let_def split_def sub8bit_frame fl)
  qed
qed

text \<open>Witness: CPI 09H at address 0 with the accumulator at 5. The borrow sets Carry and
  Auxiliary-Carry, the discarded result 0xFC sets Sign and (six bits set) Parity; the
  accumulator is still 5 and the program counter is 2.\<close>

theorem compare_sets_flags_only_witness:
  "\<not> halted (setA 0x05 (writeByte 1 0x09 (writeByte 0 0xFE new_CPU8085)))
   \<and> flags (step (setA 0x05 (writeByte 1 0x09 (writeByte 0 0xFE new_CPU8085))))
       = \<lparr>S = True, Z = False, AC = True, P = True, CY = True\<rparr>
   \<and> registers (step (setA 0x05 (writeByte 1 0x09 (writeByte 0 0xFE new_CPU8085))))
       = \<lparr>A = 0x05, B = 0, C = 0, D = 0, E = 0, H = 0, L = 0, SP = 0xFFFE, PC = 2\<rparr>
   \<and> memory (step (setA 0x05 (writeByte 1 0x09 (writeByte 0 0xFE new_CPU8085))))
       = memory (setA 0x05 (writeByte 1 0x09 (writeByte 0 0xFE new_CPU8085)))"
proof -
  let ?s = "setA 0x05 (writeByte 1 0x09 (writeByte 0 0xFE new_CPU8085))"
  have h1: "\<not> halted ?s" by (simp add: init_defs)
  have h2: "readByte ?s (PC (registers ?s)) = 0xFE" by (simp add: init_defs)
  have h3: "(0xFE, 0x09, 2) \<in>
           {(0xB8, B (registers ?s), 1),
            (0xBE, readByte ?s (getHL ?s), 1),
            (0xBF, A (registers ?s), 1),
            (0xFE, readByte ?s (PC (registers ?s) + 1), 2)}"
    by (simp add: init_defs)
  have a: "A (registers ?s) = 0x05" by (simp add: init_defs)
  have r: "registers ?s =
      \<lparr>A = 0x05, B = 0, C = 0, D = 0, E = 0, H = 0, L = 0, SP = 0xFFFE, PC = 0\<rparr>"
    by (simp add: init_defs)
  have p: "parityLoop (0xFC::u8) 0 0 = 6" by (simp add: parityLoop.simps)
  have f: "flags (snd (sub8bit 0x05 0x09 False ?s)) =
      \<lparr>S = True, Z = False, AC = True, P = True, CY = True\<rparr>"
    by (simp add: sub8bit_def Let_def updateZSPFlags_def p init_defs)
  from compare_sets_flags_only[OF h1 h2 h3] h1 show ?thesis
    by (simp add: a f r)
qed

end
